theory Spec2Isabelle
  imports Complex_Main "HOL-Library.Sublist" "HOL-Library.Log_Nat"
begin

section \<open>Values of the runtime\<close>

subsection \<open>Strings\<close>

text \<open>
  A string of the program is a sequence of UTF-16 code units. A HOL character stands for
  the code unit of the same number, so the strings of the model are those whose code
  units are below U+0100. On these \<^verbatim>\<open>trim\<close>, \<^verbatim>\<open>toLowerCase\<close>, \<^verbatim>\<open>includes\<close> and
  \<^verbatim>\<open>length\<close> are the ones of the runtime: the white space and line terminators below
  U+0100 are U+0009 to U+000D, U+0020 and U+00A0, and the letters with a lower case are A
  to Z, U+00C0 to U+00D6 and U+00D8 to U+00DE, each 32 below its lower case.
\<close>

definition isWhiteSpace :: "char \<Rightarrow> bool" where
  "isWhiteSpace c =
     (c \<in> set [CHR 0x09, CHR 0x0A, CHR 0x0B, CHR 0x0C, CHR 0x0D, CHR 0x20, CHR 0xA0])"

definition trim :: "string \<Rightarrow> string" where
  "trim s = rev (dropWhile isWhiteSpace (rev (dropWhile isWhiteSpace s)))"

definition lower_char :: "char \<Rightarrow> char" where
  "lower_char c =
     (let n = (of_char c :: nat)
      in if (65 \<le> n \<and> n \<le> 90) \<or> (192 \<le> n \<and> n \<le> 214) \<or> (216 \<le> n \<and> n \<le> 222)
         then char_of (n + 32) else c)"

definition toLowerCase :: "string \<Rightarrow> string" where
  "toLowerCase s = map lower_char s"

text \<open>\<^verbatim>\<open>s.includes(q)\<close>: \<open>q\<close> occurs in \<open>s\<close> at some position.\<close>

fun includes_str :: "string \<Rightarrow> string \<Rightarrow> bool" where
  "includes_str [] q = (q = [])"
| "includes_str (c # cs) q = (prefix q (c # cs) \<or> includes_str cs q)"

text \<open>
  \<^verbatim>\<open>Date.now().toString()\<close>: the clock reading is an integer number of
  milliseconds, printed in decimal, with a minus sign before 1970. Every time value is
  below the size from which the runtime prints a number with an exponent.
\<close>

definition digit_char :: "nat \<Rightarrow> char" where
  "digit_char d = char_of (48 + d)"

fun decimal :: "nat \<Rightarrow> string" where
  "decimal n = (if n < 10 then [digit_char n] else decimal (n div 10) @ [digit_char (n mod 10)])"

declare decimal.simps [simp del]

definition toString :: "int \<Rightarrow> string" where
  "toString i = (if i < 0 then CHR ''-'' # decimal (nat (- i)) else decimal (nat i))"

subsection \<open>Numbers\<close>

text \<open>
  A number is an IEEE 754 double. \<open>Finite m e\<close> is the double of value \<open>m * 2 ^ e\<close>, in
  the form the format stores: \<open>2 ^ 52 \<le> \<bar>m\<bar> < 2 ^ 53\<close> and \<open>- 1074 \<le> e \<le> 971\<close> for a normal
  number, \<open>\<bar>m\<bar> < 2 ^ 52\<close> and \<open>e = - 1074\<close> for zero and the subnormal ones. The sign of
  zero is left out. \<open>round_fraction a b\<close> is the double nearest to \<open>a / b\<close>, the even one
  of two equally near, which is what every arithmetic operation of the runtime returns
  for its exact result.
\<close>

datatype number = Finite int int | NaN | Infinity | MinusInfinity

definition round_half_even :: "int \<Rightarrow> int \<Rightarrow> int" where
  "round_half_even a b =
     (let d = a div b; r = a mod b
      in if 2 * r < b then d else if b < 2 * r then d + 1 else if even d then d else d + 1)"

text \<open>The \<open>k\<close> with \<open>2 ^ k \<le> a / b < 2 ^ (k + 1)\<close>, for positive \<open>a\<close> and \<open>b\<close>.\<close>

definition floor_log2 :: "int \<Rightarrow> int \<Rightarrow> int" where
  "floor_log2 a b =
     (let d = bitlen a - bitlen b
      in if (if 0 \<le> d then b * 2 ^ nat d \<le> a else b \<le> a * 2 ^ nat (- d)) then d else d - 1)"

definition round_positive :: "int \<Rightarrow> int \<Rightarrow> number" where
  "round_positive a b =
     (let e = max (floor_log2 a b) (- 1022) - 52;
          m = round_half_even (a * 2 ^ nat (- e)) (b * 2 ^ nat e);
          (m', e') = (if 2 ^ 53 \<le> m then (2 ^ 52, e + 1) else (m, e))
      in if 971 < e' then Infinity else Finite m' e')"

definition negate :: "number \<Rightarrow> number" where
  "negate x =
     (case x of Finite m e \<Rightarrow> Finite (- m) e | NaN \<Rightarrow> NaN | Infinity \<Rightarrow> MinusInfinity
      | MinusInfinity \<Rightarrow> Infinity)"

definition round_fraction :: "int \<Rightarrow> int \<Rightarrow> number" where
  "round_fraction a b =
     (if a = 0 then Finite 0 (- 1074)
      else if a < 0 then negate (round_positive (- a) b) else round_positive a b)"

text \<open>
  \<^verbatim>\<open>a / b\<close> for two array lengths, which are integers below \<open>2 ^ 32\<close> and so doubles
  themselves, and \<^verbatim>\<open>x * 100\<close>.
\<close>

definition divide_number :: "nat \<Rightarrow> nat \<Rightarrow> number" where
  "divide_number a b =
     (if b = 0 then (if a = 0 then NaN else Infinity) else round_fraction (int a) (int b))"

fun times_100 :: "number \<Rightarrow> number" where
  "times_100 (Finite m e) = round_fraction (100 * m * 2 ^ nat e) (2 ^ nat (- e))"
| "times_100 NaN = NaN"
| "times_100 Infinity = Infinity"
| "times_100 MinusInfinity = MinusInfinity"

text \<open>The rational a finite number stands for.\<close>

fun number_value :: "number \<Rightarrow> rat option" where
  "number_value (Finite m e) = Some (of_int m * 2 ^ nat e / 2 ^ nat (- e))"
| "number_value NaN = None"
| "number_value Infinity = None"
| "number_value MinusInfinity = None"

subsection \<open>What \<^verbatim>\<open>JSON.parse\<close> returns\<close>

datatype json =
  JNull | JBool bool | JNumber number | JString string | JArray "json list"
  | JObject "(string \<times> json) list"

text \<open>
  \<^verbatim>\<open>t.k\<close> for a value \<open>t\<close> that is not \<^verbatim>\<open>null\<close>: the member of an object, the last
  one of that name, and \<^verbatim>\<open>undefined\<close> (\<open>None\<close>) otherwise; on \<^verbatim>\<open>null\<close> the runtime
  throws a \<^verbatim>\<open>TypeError\<close>. \<open>falsy\<close> is the test \<^verbatim>\<open>!x\<close>.
\<close>

fun js_prop :: "json \<Rightarrow> string \<Rightarrow> json option" where
  "js_prop (JObject kvs) k = map_of (rev kvs) k"
| "js_prop JNull k = None"
| "js_prop (JBool b) k = None"
| "js_prop (JNumber x) k = None"
| "js_prop (JString s) k = None"
| "js_prop (JArray xs) k = None"

fun falsy :: "json option \<Rightarrow> bool" where
  "falsy None = True"
| "falsy (Some JNull) = True"
| "falsy (Some (JBool b)) = (\<not> b)"
| "falsy (Some (JNumber x)) = (case x of Finite m e \<Rightarrow> m = 0 | NaN \<Rightarrow> True | _ \<Rightarrow> False)"
| "falsy (Some (JString s)) = (s = [])"
| "falsy (Some (JArray xs)) = False"
| "falsy (Some (JObject kvs)) = False"

section \<open>The task record and the stored value\<close>

text \<open>
  \<^verbatim>\<open>interface Task { id; title; completed; category; date }\<close> of
  \<^verbatim>\<open>src/app/(tabs)/tasks.tsx\<close>. The field \<^verbatim>\<open>id\<close> is written \<open>id_task\<close>,
  since \<open>id\<close> is the identity function of HOL.
\<close>

record task =
  id_task :: string
  title :: string
  completed :: bool
  category :: string
  date :: string

text \<open>
  A list of task records as a value of the runtime, with the members in the order the
  program writes them, and the way back. Where \<open>decode\<close> gives nothing, the value is
  not of the type \<^verbatim>\<open>Task[]\<close> the program declares for it, or is not written the
  way the program writes one.
\<close>

definition encode_task :: "task \<Rightarrow> json" where
  "encode_task t =
     JObject [(''id'', JString (id_task t)), (''title'', JString (title t)),
              (''completed'', JBool (completed t)), (''category'', JString (category t)),
              (''date'', JString (date t))]"

definition encode :: "task list \<Rightarrow> json" where
  "encode ts = JArray (map encode_task ts)"

fun str_of :: "json \<Rightarrow> string option" where
  "str_of (JString s) = Some s"
| "str_of JNull = None"
| "str_of (JBool b) = None"
| "str_of (JNumber x) = None"
| "str_of (JArray xs) = None"
| "str_of (JObject kvs) = None"

fun bool_of :: "json \<Rightarrow> bool option" where
  "bool_of (JBool b) = Some b"
| "bool_of JNull = None"
| "bool_of (JString s) = None"
| "bool_of (JNumber x) = None"
| "bool_of (JArray xs) = None"
| "bool_of (JObject kvs) = None"

definition decode_members :: "json list \<Rightarrow> task option" where
  "decode_members vs =
     (case vs of
        [a, b, c, d, e] \<Rightarrow>
          Option.bind (str_of a) (\<lambda>i. Option.bind (str_of b) (\<lambda>t. Option.bind (bool_of c)
            (\<lambda>f. Option.bind (str_of d) (\<lambda>g. Option.bind (str_of e) (\<lambda>w.
              Some \<lparr>id_task = i, title = t, completed = f, category = g, date = w\<rparr>)))))
      | _ \<Rightarrow> None)"

fun decode_task :: "json \<Rightarrow> task option" where
  "decode_task (JObject kvs) =
     (if map fst kvs = [''id'', ''title'', ''completed'', ''category'', ''date'']
      then decode_members (map snd kvs) else None)"
| "decode_task JNull = None"
| "decode_task (JBool b) = None"
| "decode_task (JNumber x) = None"
| "decode_task (JString s) = None"
| "decode_task (JArray xs) = None"

fun decode :: "json \<Rightarrow> task list option" where
  "decode (JArray xs) = those (map decode_task xs)"
| "decode JNull = None"
| "decode (JBool b) = None"
| "decode (JNumber x) = None"
| "decode (JString s) = None"
| "decode (JObject kvs) = None"

text \<open>
  The text stored under the key \<^verbatim>\<open>'@sk_tasks'\<close>, given by what \<^verbatim>\<open>JSON.parse\<close>
  makes of it: the value it stands for, or a \<^verbatim>\<open>SyntaxError\<close>, which the empty text
  and \<open>Garbled\<close>, any other text that is not JSON, raise.
\<close>

datatype blob = Json json | Empty | Garbled

datatype error = StorageError | SyntaxError | TypeError

text \<open>Whether a call to \<^verbatim>\<open>AsyncStorage\<close> resolves or rejects is decided outside the program.\<close>

datatype outcome = Resolves | Rejects

datatype platform = Web | Native

text \<open>
  The dialogs: \<^verbatim>\<open>window.alert(message)\<close>, \<^verbatim>\<open>window.confirm(message)\<close> and
  \<^verbatim>\<open>Alert.alert(title, message, buttons)\<close> with the texts of its buttons.
\<close>

datatype alert =
  WindowAlert string | WindowConfirm string | AlertAlert string string "string list"

definition JSON_stringify :: "task list \<Rightarrow> blob" where
  "JSON_stringify ts = Json (encode ts)"

fun JSON_parse :: "blob \<Rightarrow> error + json" where
  "JSON_parse (Json v) = Inr v"
| "JSON_parse Empty = Inl SyntaxError"
| "JSON_parse Garbled = Inl SyntaxError"

text \<open>
  The test \<^verbatim>\<open>if (storedTasks)\<close>: \<^verbatim>\<open>null\<close> and the empty string are falsy, every
  other string is truthy.
\<close>

fun truthy :: "blob option \<Rightarrow> bool" where
  "truthy None = False"
| "truthy (Some Empty) = False"
| "truthy (Some Garbled) = True"
| "truthy (Some (Json v)) = True"

definition getItem :: "outcome \<Rightarrow> blob option \<Rightarrow> error + blob option" where
  "getItem r st = (case r of Rejects \<Rightarrow> Inl StorageError | Resolves \<Rightarrow> Inr st)"

definition setItem :: "outcome \<Rightarrow> blob \<Rightarrow> blob option \<Rightarrow> error + blob option" where
  "setItem w v st = (case w of Rejects \<Rightarrow> Inl StorageError | Resolves \<Rightarrow> Inr (Some v))"

section \<open>State\<close>

text \<open>
  What every screen sees: the stored value, the console and the dialogs shown. A screen
  adds its React state.
\<close>

record world =
  item :: "blob option"
  console :: "(string \<times> error) list"
  alerts :: "alert list"

record screen = world +
  tasks :: "task list"
  isModalVisible :: bool

record tasks_screen = screen +
  selectedCategory :: string

record category_count =
  id_count :: string
  name :: string
  count :: nat

record home_screen = screen +
  categories :: "category_count list"
  searchQuery :: string

record modal =
  newTaskTitle :: string
  newTaskCategory :: string

text \<open>
  The state variable \<^verbatim>\<open>tasks\<close> is declared \<^verbatim>\<open>Task[]\<close>, and every handler is written
  for that type. A load is where a value of another type can come in, since the parsed
  value is stored unchecked. \<open>Live s\<close> is a state whose \<^verbatim>\<open>tasks\<close> is the task list
  \<open>tasks s\<close>; \<open>Untyped v s\<close> is the state whose \<^verbatim>\<open>tasks\<close> holds the value \<open>v\<close>, for
  which \<open>decode\<close> gives nothing, and whose other variables are those of \<open>s\<close>.
\<close>

datatype 's after_load = Live 's | Untyped json 's

fun state_of :: "'s after_load \<Rightarrow> 's" where
  "state_of (Live s) = s"
| "state_of (Untyped v s) = s"

fun map_state :: "('s \<Rightarrow> 's) \<Rightarrow> 's after_load \<Rightarrow> 's after_load" where
  "map_state f (Live s) = Live (f s)"
| "map_state f (Untyped v s) = Untyped v (f s)"

text \<open>\<^verbatim>\<open>setTasks(v)\<close> for a parsed value.\<close>

definition setTasks :: "json \<Rightarrow> 'a screen_scheme \<Rightarrow> 'a screen_scheme after_load" where
  "setTasks v s = (case decode v of Some ts \<Rightarrow> Live (s\<lparr>tasks := ts\<rparr>) | None \<Rightarrow> Untyped v s)"

definition CATEGORY_NAMES :: "string list" where
  "CATEGORY_NAMES = [''Work'', ''Personal'', ''Shopping'', ''Health'']"

section \<open>TasksScreen\<close>

text \<open>
  Each handler is a function from the state before the call to the state after it. The
  handlers read \<^verbatim>\<open>tasks\<close> from the render they were created in; the model runs
  them one after the other, each on the state the previous one left. A \<^verbatim>\<open>try\<close> block
  is a function to a sum: \<open>Inl\<close> is the error thrown, with the state reached when it was
  thrown.
\<close>

definition loadTasks_try ::
  "outcome \<Rightarrow> tasks_screen \<Rightarrow> (error \<times> tasks_screen after_load) + tasks_screen after_load" where
  "loadTasks_try r s =
     (case getItem r (item s) of
        Inl e \<Rightarrow> Inl (e, Live s)
      | Inr storedTasks \<Rightarrow>
          (case storedTasks of
             Some b \<Rightarrow>
               if truthy storedTasks then
                 (case JSON_parse b of
                    Inl e \<Rightarrow> Inl (e, Live s)
                  | Inr v \<Rightarrow> Inr (setTasks v s))
               else Inr (Live s)
           | None \<Rightarrow> Inr (Live s)))"

definition loadTasks :: "outcome \<Rightarrow> tasks_screen \<Rightarrow> tasks_screen after_load" where
  "loadTasks r s =
     (case loadTasks_try r s of
        Inr a \<Rightarrow> a
      | Inl (e, a) \<Rightarrow>
          map_state (\<lambda>s'. s'\<lparr>console := console s' @ [(''Failed to load tasks'', e)]\<rparr>) a)"

definition saveTasks :: "outcome \<Rightarrow> task list \<Rightarrow> tasks_screen \<Rightarrow> tasks_screen" where
  "saveTasks w currentTasks s =
     (case setItem w (JSON_stringify currentTasks) (item s) of
        Inr st \<Rightarrow> s\<lparr>item := st, tasks := currentTasks\<rparr>
      | Inl e \<Rightarrow> s\<lparr>console := console s @ [(''Failed to save tasks'', e)]\<rparr>)"

text \<open>
  The record \<^verbatim>\<open>newTask\<close> both screens build: \<open>now\<close> is the reading of
  \<^verbatim>\<open>Date.now()\<close>, \<open>today\<close> the text \<^verbatim>\<open>new Date().toLocaleDateString()\<close> returns.
\<close>

definition newTask :: "int \<Rightarrow> string \<Rightarrow> string \<Rightarrow> string \<Rightarrow> task" where
  "newTask now today ttl cat =
     \<lparr>id_task = toString now, title = trim ttl, completed = False, category = cat,
      date = today\<rparr>"

definition handleAddTask ::
  "int \<Rightarrow> string \<Rightarrow> outcome \<Rightarrow> string \<Rightarrow> string \<Rightarrow> tasks_screen \<Rightarrow> tasks_screen" where
  "handleAddTask now today w ttl cat s =
     (let updatedTasks = newTask now today ttl cat # tasks s in saveTasks w updatedTasks s)"

text \<open>
  \<open>toggled\<close> is the expression \<^verbatim>\<open>tasks.map(task => task.id === id ? { ...task,
  completed: !task.completed } : task)\<close>, which both screens compute.
\<close>

definition toggled :: "string \<Rightarrow> task list \<Rightarrow> task list" where
  "toggled i ts = map (\<lambda>t. if id_task t = i then t\<lparr>completed := \<not> completed t\<rparr> else t) ts"

definition toggleTask :: "outcome \<Rightarrow> string \<Rightarrow> tasks_screen \<Rightarrow> tasks_screen" where
  "toggleTask w i s = (let updatedTasks = toggled i (tasks s) in saveTasks w updatedTasks s)"

text \<open>
  \<^verbatim>\<open>deleteTask\<close> asks first, with \<^verbatim>\<open>window.confirm\<close> on the web and with an
  alert of two buttons elsewhere; \<open>answer\<close> is whether the user chose to delete.
\<close>

definition deleteTask :: "platform \<Rightarrow> bool \<Rightarrow> outcome \<Rightarrow> string \<Rightarrow> tasks_screen \<Rightarrow> tasks_screen" where
  "deleteTask os answer w i s =
     (case os of
        Web \<Rightarrow>
          (let s' = s\<lparr>alerts := alerts s @
                      [WindowConfirm ''Are you sure you want to delete this task?'']\<rparr>
           in if answer then
                (let updatedTasks = filter (\<lambda>t. id_task t \<noteq> i) (tasks s)
                 in saveTasks w updatedTasks s')
              else s')
      | Native \<Rightarrow>
          (let s' = s\<lparr>alerts := alerts s @
                      [AlertAlert ''Delete Task'' ''Are you sure you want to delete this task?''
                         [''Cancel'', ''Delete'']]\<rparr>
           in if answer then
                (let updatedTasks = filter (\<lambda>t. id_task t \<noteq> i) (tasks s)
                 in saveTasks w updatedTasks s')
              else s'))"

section \<open>HomeScreen\<close>

definition categoryCounts :: "task list \<Rightarrow> category_count list" where
  "categoryCounts ts =
     map (\<lambda>(index, nm).
            \<lparr>id_count = toString (int index), name = nm,
             count = length (filter (\<lambda>t. category t = nm \<and> \<not> completed t) ts)\<rparr>)
         (enumerate 0 CATEGORY_NAMES)"

text \<open>
  The same count over a parsed value that is not a task list. \<^verbatim>\<open>loadedTasks.filter\<close>
  throws a \<^verbatim>\<open>TypeError\<close> when the value is not an array, and the test
  \<^verbatim>\<open>t.category === name && !t.completed\<close> throws one on an element \<^verbatim>\<open>null\<close>.
\<close>

fun counting_throws :: "json \<Rightarrow> bool" where
  "counting_throws (JArray xs) = (JNull \<in> set xs)"
| "counting_throws JNull = True"
| "counting_throws (JBool b) = True"
| "counting_throws (JNumber x) = True"
| "counting_throws (JString s) = True"
| "counting_throws (JObject kvs) = True"

fun elements :: "json \<Rightarrow> json list" where
  "elements (JArray xs) = xs"
| "elements JNull = []"
| "elements (JBool b) = []"
| "elements (JNumber x) = []"
| "elements (JString s) = []"
| "elements (JObject kvs) = []"

definition categoryCounts_json :: "json \<Rightarrow> category_count list" where
  "categoryCounts_json v =
     map (\<lambda>(index, nm).
            \<lparr>id_count = toString (int index), name = nm,
             count = length (filter (\<lambda>t. js_prop t ''category'' = Some (JString nm) \<and>
                                          falsy (js_prop t ''completed'')) (elements v))\<rparr>)
         (enumerate 0 CATEGORY_NAMES)"

definition loadData_try ::
  "outcome \<Rightarrow> home_screen \<Rightarrow> (error \<times> home_screen after_load) + home_screen after_load" where
  "loadData_try r s =
     (case getItem r (item s) of
        Inl e \<Rightarrow> Inl (e, Live s)
      | Inr storedTasks \<Rightarrow>
          (case (case storedTasks of
                   Some b \<Rightarrow> if truthy storedTasks then JSON_parse b else Inr (encode [])
                 | None \<Rightarrow> Inr (encode [])) of
             Inl e \<Rightarrow> Inl (e, Live s)
           | Inr loadedTasks \<Rightarrow>
               (case decode loadedTasks of
                  Some ts \<Rightarrow> Inr (Live (s\<lparr>tasks := ts, categories := categoryCounts ts\<rparr>))
                | None \<Rightarrow>
                    if counting_throws loadedTasks then Inl (TypeError, Untyped loadedTasks s)
                    else Inr (Untyped loadedTasks
                                (s\<lparr>categories := categoryCounts_json loadedTasks\<rparr>)))))"

definition loadData :: "outcome \<Rightarrow> home_screen \<Rightarrow> home_screen after_load" where
  "loadData r s =
     (case loadData_try r s of
        Inr a \<Rightarrow> a
      | Inl (e, a) \<Rightarrow>
          map_state (\<lambda>s'. s'\<lparr>console := console s' @ [(''Failed to load tasks'', e)]\<rparr>) a)"

definition home_handleAddTask ::
  "int \<Rightarrow> string \<Rightarrow> outcome \<Rightarrow> string \<Rightarrow> string \<Rightarrow> home_screen \<Rightarrow> home_screen" where
  "home_handleAddTask now today w ttl cat s =
     (let updatedTasks = newTask now today ttl cat # tasks s;
          updatedCategories =
            map (\<lambda>c. if name c = cat then c\<lparr>count := count c + 1\<rparr> else c) (categories s);
          s' = s\<lparr>tasks := updatedTasks, categories := updatedCategories\<rparr>
      in case setItem w (JSON_stringify updatedTasks) (item s') of
           Inr st \<Rightarrow> s'\<lparr>item := st\<rparr>
         | Inl e \<Rightarrow> s'\<lparr>console := console s' @ [(''Failed to save task'', e)]\<rparr>)"

definition home_toggleTask :: "outcome \<Rightarrow> string \<Rightarrow> home_screen \<Rightarrow> home_screen" where
  "home_toggleTask w i s =
     (let updatedTasks = toggled i (tasks s);
          s' = s\<lparr>tasks := updatedTasks, categories := categoryCounts updatedTasks\<rparr>
      in case setItem w (JSON_stringify updatedTasks) (item s') of
           Inr st \<Rightarrow> s'\<lparr>item := st\<rparr>
         | Inl e \<Rightarrow> s'\<lparr>console := console s' @ [(''Failed to save task'', e)]\<rparr>)"

text \<open>The values the home screen derives at each render.\<close>

definition completedCount :: "task list \<Rightarrow> nat" where
  "completedCount ts = length (filter (\<lambda>t. completed t) ts)"

definition totalCount :: "task list \<Rightarrow> nat" where
  "totalCount ts = length ts"

definition progress :: "task list \<Rightarrow> number" where
  "progress ts =
     (if totalCount ts > 0 then times_100 (divide_number (completedCount ts) (totalCount ts))
      else Finite 0 (- 1074))"

definition displayedTasks :: "string \<Rightarrow> task list \<Rightarrow> task list" where
  "displayedTasks q ts =
     (if length q > 0
      then filter (\<lambda>t. includes_str (toLowerCase (title t)) (toLowerCase q)) ts
      else take 5 ts)"

section \<open>AddTaskModal\<close>

text \<open>
  The modal holds the text typed so far and calls back into the screen that shows it:
  \<open>onAddTask\<close> and \<open>onClose\<close> are the properties the screen passes.
\<close>

definition modal_handleAddTask ::
  "platform \<Rightarrow> (string \<Rightarrow> string \<Rightarrow> 'a screen_scheme \<Rightarrow> 'a screen_scheme) \<Rightarrow>
   ('a screen_scheme \<Rightarrow> 'a screen_scheme) \<Rightarrow> modal \<times> 'a screen_scheme \<Rightarrow>
   modal \<times> 'a screen_scheme" where
  "modal_handleAddTask os onAddTask onClose ms =
     (case ms of (m, s) \<Rightarrow>
        if length (trim (newTaskTitle m)) = 0 then
          (case os of
             Web \<Rightarrow> (m, s\<lparr>alerts := alerts s @ [WindowAlert ''Please enter a task title'']\<rparr>)
           | Native \<Rightarrow>
               (m, s\<lparr>alerts := alerts s @
                      [AlertAlert ''Error'' ''Please enter a task title'' []]\<rparr>))
        else
          (m\<lparr>newTaskTitle := []\<rparr>,
           onClose (onAddTask (newTaskTitle m) (newTaskCategory m) s)))"

text \<open>The property \<^verbatim>\<open>onClose\<close> both screens pass: \<^verbatim>\<open>() => setIsModalVisible(false)\<close>.\<close>

definition closeModal :: "'a screen_scheme \<Rightarrow> 'a screen_scheme" where
  "closeModal s = s\<lparr>isModalVisible := False\<rparr>"

section \<open>Notions the properties are stated with\<close>

text \<open>Two records that agree on every field but, possibly, \<^verbatim>\<open>completed\<close>.\<close>

definition only_completed_differs :: "task \<Rightarrow> task \<Rightarrow> bool" where
  "only_completed_differs t t' =
     (id_task t' = id_task t \<and> title t' = title t \<and> category t' = category t \<and>
      date t' = date t)"

text \<open>
  A title contains a query case-insensitively: the lowered query occurs, as a contiguous
  run of characters, in the lowered title.
\<close>

definition contains_ci :: "string \<Rightarrow> string \<Rightarrow> bool" where
  "contains_ci ttl q = sublist (toLowerCase q) (toLowerCase ttl)"

text \<open>Reading a decimal text back, to show that printing loses nothing.\<close>

definition digit_val :: "char \<Rightarrow> nat" where
  "digit_val c = of_char c - 48"

definition decimal_val :: "string \<Rightarrow> nat" where
  "decimal_val s = foldl (\<lambda>a c. 10 * a + digit_val c) 0 s"

subsection \<open>Sample data for the worked instances\<close>

definition milk :: task where
  "milk = \<lparr>id_task = ''1700000000000'', title = ''Buy milk'', completed = False,
            category = ''Shopping'', date = ''11/14/2023''\<rparr>"

definition report :: task where
  "report = \<lparr>id_task = ''1700000000001'', title = ''Write Report'', completed = True,
              category = ''Work'', date = ''11/14/2023''\<rparr>"

definition tasks0 :: tasks_screen where
  "tasks0 = \<lparr>item = Some (Json (encode [milk, report])), console = [], alerts = [],
              tasks = [milk, report], isModalVisible = False, selectedCategory = ''All''\<rparr>"

definition home0 :: home_screen where
  "home0 = \<lparr>item = Some (Json (encode [milk, report])), console = [], alerts = [],
             tasks = [milk, report], isModalVisible = False,
             categories = categoryCounts [milk, report], searchQuery = []\<rparr>"

section \<open>Helper facts\<close>

lemma decode_task_encode_task: "decode_task (encode_task t) = Some t"
  by (simp add: encode_task_def decode_members_def)

lemma those_decode_encode: "those (map decode_task (map encode_task ts)) = Some ts"
  by (induction ts) (simp_all add: decode_task_encode_task)

lemma decode_encode: "decode (encode ts) = Some ts"
  by (simp only: encode_def decode.simps those_decode_encode)

text \<open>
  On the value of a task list the count over parsed values is the count over the list,
  and it does not throw: the two branches of \<open>loadData_try\<close> are one computation.
\<close>

lemma js_prop_encode_task:
  "js_prop (encode_task t) ''category'' = Some (JString (category t)) \<and>
   js_prop (encode_task t) ''completed'' = Some (JBool (completed t))"
  by (simp add: encode_task_def)

lemma categoryCounts_json_encode: "categoryCounts_json (encode ts) = categoryCounts ts"
  by (simp add: categoryCounts_json_def categoryCounts_def encode_def filter_map comp_def
      js_prop_encode_task)

lemma counting_throws_encode: "\<not> counting_throws (encode ts)"
  by (auto simp: encode_def encode_task_def)

lemma saveTasks_Resolves:
  "saveTasks Resolves ts s = s\<lparr>item := Some (Json (encode ts)), tasks := ts\<rparr>"
  by (simp add: saveTasks_def setItem_def JSON_stringify_def)

lemma saveTasks_Rejects:
  "saveTasks Rejects ts s = s\<lparr>console := console s @ [(''Failed to save tasks'', StorageError)]\<rparr>"
  by (simp add: saveTasks_def setItem_def)

lemma tasks_saveTasks:
  "tasks (saveTasks w ts s) = (case w of Resolves \<Rightarrow> ts | Rejects \<Rightarrow> tasks s)"
  by (cases w) (simp_all add: saveTasks_Resolves saveTasks_Rejects)

lemma tasks_toggleTask:
  "tasks (toggleTask w i s) = (case w of Resolves \<Rightarrow> toggled i (tasks s) | Rejects \<Rightarrow> tasks s)"
  by (simp add: toggleTask_def tasks_saveTasks)

lemma tasks_handleAddTask:
  "tasks (handleAddTask now today w ttl cat s) =
     (case w of Resolves \<Rightarrow> newTask now today ttl cat # tasks s | Rejects \<Rightarrow> tasks s)"
  by (simp add: handleAddTask_def tasks_saveTasks)

lemma tasks_home_toggleTask: "tasks (home_toggleTask w i h) = toggled i (tasks h)"
  by (cases w) (simp_all add: home_toggleTask_def setItem_def Let_def)

lemma tasks_home_handleAddTask:
  "tasks (home_handleAddTask now today w ttl cat h) = newTask now today ttl cat # tasks h"
  by (cases w) (simp_all add: home_handleAddTask_def setItem_def Let_def)

lemma toggled_twice: "toggled i (toggled i ts) = ts"
  by (induction ts) (auto simp: toggled_def)

lemma toggled_frame:
  "list_all2 (\<lambda>t t'. only_completed_differs t t' \<and> (id_task t \<noteq> i \<longrightarrow> t' = t)) ts (toggled i ts)"
  by (induction ts) (auto simp: toggled_def only_completed_differs_def)

lemma same_frame:
  "list_all2 (\<lambda>t t'. only_completed_differs t t' \<and> (id_task t \<noteq> i \<longrightarrow> t' = t)) ts ts"
  by (induction ts) (auto simp: only_completed_differs_def)

lemma toggled_no_match: "i \<notin> set (map id_task ts) \<Longrightarrow> toggled i ts = ts"
  by (induction ts) (auto simp: toggled_def)

lemma includes_str_sublist: "includes_str s q = sublist q s"
  by (induction s) (auto simp: sublist_Cons_right)

section \<open>Toggling\<close>

text \<open>
  C5. On either screen, whatever the write does, \<^verbatim>\<open>toggleTask\<close> leaves the collection
  with the same records in the same places, each with its \<^verbatim>\<open>id\<close>, \<^verbatim>\<open>title\<close>,
  \<^verbatim>\<open>category\<close> and \<^verbatim>\<open>date\<close>; a record whose identifier is not the one given is
  unchanged as a whole; and when no record has the identifier the collection is the one
  before.
\<close>

theorem toggleTask_frame:
  "list_all2 (\<lambda>t t'. only_completed_differs t t' \<and> (id_task t \<noteq> i \<longrightarrow> t' = t))
     (tasks s) (tasks (toggleTask w i s)) \<and>
   (i \<notin> set (map id_task (tasks s)) \<longrightarrow> tasks (toggleTask w i s) = tasks s) \<and>
   list_all2 (\<lambda>t t'. only_completed_differs t t' \<and> (id_task t \<noteq> i \<longrightarrow> t' = t))
     (tasks h) (tasks (home_toggleTask w' i h)) \<and>
   (i \<notin> set (map id_task (tasks h)) \<longrightarrow> tasks (home_toggleTask w' i h) = tasks h)"
proof -
  have "tasks (toggleTask w i s) = toggled i (tasks s) \<or> tasks (toggleTask w i s) = tasks s"
    by (cases w) (simp_all add: tasks_toggleTask)
  then show ?thesis
    by (auto simp: tasks_home_toggleTask toggled_frame same_frame toggled_no_match)
qed

theorem toggleTask_frame_witness:
  "id_task milk \<noteq> ''1700000000001'' \<and>
   tasks (toggleTask Resolves ''1700000000001'' tasks0) = [milk, report\<lparr>completed := False\<rparr>] \<and>
   ''42'' \<notin> set (map id_task (tasks tasks0)) \<and>
   tasks (toggleTask Resolves ''42'' tasks0) = tasks tasks0 \<and>
   list_all2 (\<lambda>t t'. only_completed_differs t t' \<and> (id_task t \<noteq> ''1700000000001'' \<longrightarrow> t' = t))
     (tasks tasks0) (tasks (toggleTask Resolves ''1700000000001'' tasks0))"
  using toggleTask_frame [of "''1700000000001''" tasks0 Resolves home0 Resolves]
    toggleTask_frame [of "''42''" tasks0 Resolves home0 Resolves]
  by (simp add: tasks_toggleTask toggled_def tasks0_def milk_def report_def)

text \<open>
  C3. The claim fails on the tasks screen, where \<^verbatim>\<open>saveTasks\<close> makes the new
  collection the state only once its write has resolved. Of two toggles of one
  identifier, the first written and the second with a write that rejects, the second is
  lost and the record stays flipped; and a second toggle made before the write of the
  first has resolved starts from the collection the first one started from, so that the
  record again ends flipped once. The home screen, which sets the state before it
  writes, gives the collection back whatever its two writes do.
\<close>

theorem toggleTask_twice_rejected_write:
  "tasks (toggleTask Rejects i (toggleTask Resolves i s)) = toggled i (tasks s) \<and>
   tasks (saveTasks Resolves (toggled i (tasks s)) (saveTasks Resolves (toggled i (tasks s)) s)) =
     toggled i (tasks s) \<and>
   tasks (home_toggleTask w2 i (home_toggleTask w1 i h)) = tasks h \<and>
   map completed (tasks tasks0) = [False, True] \<and>
   map completed
     (tasks (toggleTask Rejects ''1700000000000'' (toggleTask Resolves ''1700000000000'' tasks0))) =
     [True, True] \<and>
   map completed
     (tasks (home_toggleTask Rejects ''1700000000000''
        (home_toggleTask Resolves ''1700000000000'' home0))) = [False, True]"
  by (simp add: tasks_toggleTask tasks_saveTasks tasks_home_toggleTask toggled_twice)
    (simp add: toggled_def tasks0_def home0_def milk_def report_def)

section \<open>Loading\<close>

lemma loadTasks_Rejects:
  "loadTasks Rejects s =
     Live (s\<lparr>console := console s @ [(''Failed to load tasks'', StorageError)]\<rparr>)"
  by (simp add: loadTasks_def loadTasks_try_def getItem_def)

lemma loadData_Rejects:
  "loadData Rejects h =
     Live (h\<lparr>console := console h @ [(''Failed to load tasks'', StorageError)]\<rparr>)"
  by (simp add: loadData_def loadData_try_def getItem_def)

lemma loadTasks_Json:
  "item s = Some (Json v) \<Longrightarrow> loadTasks Resolves s = setTasks v s"
  by (simp add: loadTasks_def loadTasks_try_def getItem_def)

lemma loadTasks_encode:
  "item s = Some (Json (encode ts)) \<Longrightarrow> loadTasks Resolves s = Live (s\<lparr>tasks := ts\<rparr>)"
  by (simp add: loadTasks_Json setTasks_def decode_encode)

lemma loadTasks_Garbled:
  "item s = Some Garbled \<Longrightarrow>
   loadTasks Resolves s =
     Live (s\<lparr>console := console s @ [(''Failed to load tasks'', SyntaxError)]\<rparr>)"
  by (simp add: loadTasks_def loadTasks_try_def getItem_def)

lemma loadData_absent:
  "item h = None \<or> item h = Some Empty \<Longrightarrow>
   loadData Resolves h = Live (h\<lparr>tasks := [], categories := categoryCounts []\<rparr>)"
  by (auto simp: loadData_def loadData_try_def getItem_def decode_encode)

lemma loadData_Garbled:
  "item h = Some Garbled \<Longrightarrow>
   loadData Resolves h =
     Live (h\<lparr>console := console h @ [(''Failed to load tasks'', SyntaxError)]\<rparr>)"
  by (simp add: loadData_def loadData_try_def getItem_def)

lemma loadData_Json:
  "item h = Some (Json v) \<Longrightarrow>
   loadData Resolves h =
     (case decode v of
        Some ts \<Rightarrow> Live (h\<lparr>tasks := ts, categories := categoryCounts ts\<rparr>)
      | None \<Rightarrow>
          if counting_throws v
          then Untyped v (h\<lparr>console := console h @ [(''Failed to load tasks'', TypeError)]\<rparr>)
          else Untyped v (h\<lparr>categories := categoryCounts_json v\<rparr>))"
  by (simp add: loadData_def loadData_try_def getItem_def split: option.splits)

lemma loadData_encode:
  "item h = Some (Json (encode ts)) \<Longrightarrow>
   loadData Resolves h = Live (h\<lparr>tasks := ts, categories := categoryCounts ts\<rparr>)"
  by (simp add: loadData_Json decode_encode)

text \<open>
  C7. When the read of the stored value rejects, \<^verbatim>\<open>loadTasks\<close> and \<^verbatim>\<open>loadData\<close>
  add one entry to the console and change nothing else; the collection in memory is
  the one before.
\<close>

theorem load_read_failure:
  "loadTasks Rejects s =
     Live (s\<lparr>console := console s @ [(''Failed to load tasks'', StorageError)]\<rparr>) \<and>
   tasks (state_of (loadTasks Rejects s)) = tasks s \<and>
   loadData Rejects h =
     Live (h\<lparr>console := console h @ [(''Failed to load tasks'', StorageError)]\<rparr>) \<and>
   tasks (state_of (loadData Rejects h)) = tasks h"
  by (simp add: loadTasks_Rejects loadData_Rejects)

text \<open>
  C2, as the code has it. With the stored value absent, or the empty text,
  \<^verbatim>\<open>loadData\<close> sets the collection to the empty one. With a stored text that
  \<^verbatim>\<open>JSON.parse\<close> rejects, both loaders add one entry to the console and change nothing
  else: the collection stays the one in memory. A stored text that parses is put into
  the state as parsed, unchecked: a list of task records becomes the collection, and any
  other value becomes the value of \<^verbatim>\<open>tasks\<close>, with nothing written to the console by
  \<^verbatim>\<open>loadTasks\<close> and with a \<^verbatim>\<open>TypeError\<close> written by \<^verbatim>\<open>loadData\<close> when the count
  of the categories throws. Neither loader passes an error on: every case ends in a
  state. The instance after the theorem has two records in memory and a stored text that
  is not JSON, or is \<^verbatim>\<open>null\<close>.
\<close>

theorem load_absent_or_unreadable:
  "(item h = None \<or> item h = Some Empty \<longrightarrow>
      loadData Resolves h = Live (h\<lparr>tasks := [], categories := categoryCounts []\<rparr>)) \<and>
   (item s = Some Garbled \<longrightarrow>
      loadTasks Resolves s =
        Live (s\<lparr>console := console s @ [(''Failed to load tasks'', SyntaxError)]\<rparr>)) \<and>
   (item h = Some Garbled \<longrightarrow>
      loadData Resolves h =
        Live (h\<lparr>console := console h @ [(''Failed to load tasks'', SyntaxError)]\<rparr>)) \<and>
   (item s = Some (Json v) \<and> decode v = None \<longrightarrow> loadTasks Resolves s = Untyped v s) \<and>
   (item h = Some (Json v) \<and> decode v = None \<longrightarrow>
      loadData Resolves h =
        (if counting_throws v
         then Untyped v (h\<lparr>console := console h @ [(''Failed to load tasks'', TypeError)]\<rparr>)
         else Untyped v (h\<lparr>categories := categoryCounts_json v\<rparr>))) \<and>
   (item s = Some (Json v) \<and> decode v = Some ts \<longrightarrow>
      loadTasks Resolves s = Live (s\<lparr>tasks := ts\<rparr>)) \<and>
   (item h = Some (Json v) \<and> decode v = Some ts \<longrightarrow>
      loadData Resolves h = Live (h\<lparr>tasks := ts, categories := categoryCounts ts\<rparr>))"
  by (auto simp: loadData_absent loadTasks_Garbled loadData_Garbled loadTasks_Json loadData_Json
      setTasks_def)

theorem load_absent_or_unreadable_witness:
  "loadData Resolves (home0\<lparr>item := None\<rparr>) =
     Live (home0\<lparr>item := None, tasks := [], categories := categoryCounts []\<rparr>) \<and>
   loadTasks Resolves (tasks0\<lparr>item := Some Garbled, tasks := []\<rparr>) =
     Live (tasks0\<lparr>item := Some Garbled, tasks := [],
                  console := [(''Failed to load tasks'', SyntaxError)]\<rparr>) \<and>
   loadData Resolves (home0\<lparr>item := Some Garbled\<rparr>) =
     Live (home0\<lparr>item := Some Garbled, console := [(''Failed to load tasks'', SyntaxError)]\<rparr>) \<and>
   decode (JArray [JNull]) = None \<and>
   loadTasks Resolves (tasks0\<lparr>item := Some (Json (JArray [JNull]))\<rparr>) =
     Untyped (JArray [JNull]) (tasks0\<lparr>item := Some (Json (JArray [JNull]))\<rparr>) \<and>
   loadData Resolves (home0\<lparr>item := Some (Json (JArray [JNull]))\<rparr>) =
     Untyped (JArray [JNull])
       (home0\<lparr>item := Some (Json (JArray [JNull])),
              console := [(''Failed to load tasks'', TypeError)]\<rparr>) \<and>
   decode (encode [report]) = Some [report] \<and>
   loadTasks Resolves (tasks0\<lparr>item := Some (Json (encode [report]))\<rparr>) =
     Live (tasks0\<lparr>item := Some (Json (encode [report])), tasks := [report]\<rparr>)"
  using load_absent_or_unreadable [of "home0\<lparr>item := None\<rparr>"
      "tasks0\<lparr>item := Some Garbled, tasks := []\<rparr>" JNull "[]"]
    load_absent_or_unreadable [of "home0\<lparr>item := Some Garbled\<rparr>"
      "tasks0\<lparr>item := Some (Json (JArray [JNull]))\<rparr>" "JArray [JNull]" "[]"]
    load_absent_or_unreadable [of "home0\<lparr>item := Some (Json (JArray [JNull]))\<rparr>"
      "tasks0\<lparr>item := Some (Json (encode [report]))\<rparr>" "JArray [JNull]" "[]"]
    load_absent_or_unreadable [of "home0\<lparr>item := Some (Json (encode [report]))\<rparr>"
      "tasks0\<lparr>item := Some (Json (encode [report]))\<rparr>" "encode [report]" "[report]"]
  by (simp add: decode_encode tasks0_def home0_def)

theorem load_absent_or_unreadable_counterexample:
  "loadTasks Resolves (tasks0\<lparr>item := Some Garbled\<rparr>) =
     Live (tasks0\<lparr>item := Some Garbled, console := [(''Failed to load tasks'', SyntaxError)]\<rparr>) \<and>
   loadData Resolves (home0\<lparr>item := Some Garbled\<rparr>) =
     Live (home0\<lparr>item := Some Garbled, console := [(''Failed to load tasks'', SyntaxError)]\<rparr>) \<and>
   tasks tasks0 = [milk, report] \<and> tasks home0 = [milk, report] \<and>
   loadTasks Resolves (tasks0\<lparr>item := Some (Json JNull)\<rparr>) =
     Untyped JNull (tasks0\<lparr>item := Some (Json JNull)\<rparr>) \<and>
   console tasks0 = []"
  by (simp add: loadTasks_Garbled loadData_Garbled loadTasks_Json setTasks_def tasks0_def home0_def)

section \<open>Deleting\<close>

lemma deleteTask_written:
  "item (deleteTask os True Resolves i s) =
     Some (Json (encode (filter (\<lambda>t. id_task t \<noteq> i) (tasks s)))) \<and>
   tasks (deleteTask os True Resolves i s) = filter (\<lambda>t. id_task t \<noteq> i) (tasks s)"
  by (cases os) (simp_all add: deleteTask_def saveTasks_Resolves Let_def)

lemma deleteTask_unwritten:
  "item (deleteTask os answer Rejects i s) = item s \<and>
   tasks (deleteTask os answer Rejects i s) = tasks s"
  by (cases os) (simp_all add: deleteTask_def saveTasks_Rejects Let_def)

text \<open>
  C4, as the code has it. Once the user has confirmed and the write of the new
  collection has resolved, the stored value is the collection without the records of
  that identifier. A load that reads it, on either screen and whatever that screen
  had in memory, then yields exactly this collection, which has no record of that
  identifier; so does \<^verbatim>\<open>loadTasks\<close> on the deleting screen when its read rejects. The
  instance after the theorem is a removal whose write rejects, after which the stored
  value and every load of it still have the record, and a home screen whose read
  rejects, which keeps the record it had in memory.
\<close>

theorem deleteTask_then_load:
  assumes "answer"
  shows "item (deleteTask os answer Resolves i s) =
           Some (Json (encode (filter (\<lambda>t. id_task t \<noteq> i) (tasks s)))) \<and>
         (item s' = item (deleteTask os answer Resolves i s) \<longrightarrow>
            loadTasks Resolves s' = Live (s'\<lparr>tasks := filter (\<lambda>t. id_task t \<noteq> i) (tasks s)\<rparr>)) \<and>
         (item h = item (deleteTask os answer Resolves i s) \<longrightarrow>
            loadData Resolves h =
              Live (h\<lparr>tasks := filter (\<lambda>t. id_task t \<noteq> i) (tasks s),
                      categories := categoryCounts (filter (\<lambda>t. id_task t \<noteq> i) (tasks s))\<rparr>)) \<and>
         (\<exists>s''. loadTasks r (deleteTask os answer Resolves i s) = Live s'' \<and>
                tasks s'' = filter (\<lambda>t. id_task t \<noteq> i) (tasks s)) \<and>
         (\<forall>t \<in> set (filter (\<lambda>t. id_task t \<noteq> i) (tasks s)). id_task t \<noteq> i)"
proof -
  let ?f = "filter (\<lambda>t. id_task t \<noteq> i) (tasks s)"
  let ?d = "deleteTask os answer Resolves i s"
  have d: "item ?d = Some (Json (encode ?f))" and t: "tasks ?d = ?f"
    using assms by (simp_all add: deleteTask_written)
  have l: "\<exists>s''. loadTasks r ?d = Live s'' \<and> tasks s'' = ?f"
    by (cases r) (simp_all add: loadTasks_Rejects loadTasks_encode [OF d] t)
  show ?thesis
    using l by (simp add: d loadTasks_encode loadData_encode)
qed

theorem deleteTask_then_load_witness:
  "item (deleteTask Native True Resolves ''1700000000000'' tasks0) = Some (Json (encode [report])) \<and>
   tasks home0 = [milk, report] \<and>
   loadData Resolves (home0\<lparr>item := Some (Json (encode [report]))\<rparr>) =
     Live (home0\<lparr>item := Some (Json (encode [report])), tasks := [report],
                 categories := categoryCounts [report]\<rparr>) \<and>
   loadTasks Resolves (tasks0\<lparr>item := Some (Json (encode [report]))\<rparr>) =
     Live (tasks0\<lparr>item := Some (Json (encode [report])), tasks := [report]\<rparr>) \<and>
   id_task report \<noteq> ''1700000000000''"
proof -
  have f: "filter (\<lambda>t. id_task t \<noteq> ''1700000000000'') (tasks tasks0) = [report]"
    by (simp add: tasks0_def milk_def report_def)
  have d: "item (deleteTask Native True Resolves ''1700000000000'' tasks0) =
      Some (Json (encode [report]))"
    using deleteTask_written [of Native "''1700000000000''" tasks0] by (simp add: f)
  have h: "tasks home0 = [milk, report]" and r: "id_task report \<noteq> ''1700000000000''"
    by (simp_all add: home0_def report_def)
  show ?thesis
    using deleteTask_then_load [of True Native "''1700000000000''" tasks0
        "tasks0\<lparr>item := Some (Json (encode [report]))\<rparr>"
        "home0\<lparr>item := Some (Json (encode [report]))\<rparr>" Resolves]
    by (simp add: d f h r)
qed

theorem deleteTask_then_load_counterexample:
  "id_task milk = ''1700000000000'' \<and>
   item (deleteTask Native True Rejects ''1700000000000'' tasks0) =
     Some (Json (encode [milk, report])) \<and>
   loadTasks Resolves ((deleteTask Native True Rejects ''1700000000000'' tasks0)\<lparr>tasks := []\<rparr>) =
     Live ((deleteTask Native True Rejects ''1700000000000'' tasks0)\<lparr>tasks := [milk, report]\<rparr>) \<and>
   loadData Rejects
     (home0\<lparr>item := item (deleteTask Native True Resolves ''1700000000000'' tasks0)\<rparr>) =
     Live (home0\<lparr>item := item (deleteTask Native True Resolves ''1700000000000'' tasks0),
                 console := [(''Failed to load tasks'', StorageError)]\<rparr>) \<and>
   tasks home0 = [milk, report]"
proof -
  have i: "item (deleteTask Native True Rejects ''1700000000000'' tasks0) =
      Some (Json (encode [milk, report]))"
    by (simp add: deleteTask_unwritten tasks0_def)
  then have "item ((deleteTask Native True Rejects ''1700000000000'' tasks0)\<lparr>tasks := []\<rparr>) =
      Some (Json (encode [milk, report]))"
    by simp
  then have "loadTasks Resolves
      ((deleteTask Native True Rejects ''1700000000000'' tasks0)\<lparr>tasks := []\<rparr>) =
      Live ((deleteTask Native True Rejects ''1700000000000'' tasks0)\<lparr>tasks := [milk, report]\<rparr>)"
    by (simp add: loadTasks_encode)
  then show ?thesis
    using i by (simp add: loadData_Rejects) (simp add: milk_def home0_def)
qed

section \<open>Adding\<close>

text \<open>
  C1. The claim fails on the tasks screen, where \<^verbatim>\<open>saveTasks\<close> makes the new
  collection the state only once its write has resolved: an add whose write rejects
  leaves the collection as it was. The home screen, at the same input, has the new
  record first, and so has the tasks screen when its write resolves.
\<close>

theorem handleAddTask_rejected_write:
  "tasks (handleAddTask now today Rejects ttl cat s) = tasks s \<and>
   length (tasks (handleAddTask now today Rejects ttl cat s)) = length (tasks s) \<and>
   tasks (home_handleAddTask now today Rejects ttl cat h) = newTask now today ttl cat # tasks h \<and>
   tasks (handleAddTask now today Resolves ttl cat s) = newTask now today ttl cat # tasks s \<and>
   completed (newTask now today ttl cat) = False \<and>
   tasks (handleAddTask 1700000000002 ''11/14/2023'' Rejects ''Call home'' ''Personal'' tasks0) =
     [milk, report] \<and>
   map title
     (tasks (home_handleAddTask 1700000000002 ''11/14/2023'' Rejects ''Call home'' ''Personal'' home0)) =
     [''Call home'', ''Buy milk'', ''Write Report'']"
  by (simp add: tasks_handleAddTask tasks_home_handleAddTask)
    (simp add: newTask_def tasks0_def home0_def milk_def report_def trim_def isWhiteSpace_def)

section \<open>The form\<close>

text \<open>
  C8. When the title typed is empty after trimming, the form shows an alert, calls
  neither \<open>onAddTask\<close> nor \<open>onClose\<close> and changes nothing else, so the collection is the
  one before. When it is not, the form passes the title as typed and the category to
  \<open>onAddTask\<close>, empties its field and closes, and the record the screen builds has the
  trimmed title. The claim fails where C1 does: on the tasks screen a submission whose
  write rejects creates no task, while on the home screen, and on the tasks screen when
  the write resolves, the record is put first in the collection.
\<close>

theorem modal_handleAddTask_rejected_write:
  "(trim (newTaskTitle m) = [] \<longrightarrow>
      modal_handleAddTask os onAddTask onClose (m, s) =
        (m, s\<lparr>alerts := alerts s @
               [case os of Web \<Rightarrow> WindowAlert ''Please enter a task title''
                | Native \<Rightarrow> AlertAlert ''Error'' ''Please enter a task title'' []]\<rparr>) \<and>
      tasks (snd (modal_handleAddTask os onAddTask onClose (m, s))) = tasks s) \<and>
   (trim (newTaskTitle m) \<noteq> [] \<longrightarrow>
      modal_handleAddTask os onAddTask onClose (m, s) =
        (m\<lparr>newTaskTitle := []\<rparr>, onClose (onAddTask (newTaskTitle m) (newTaskCategory m) s)) \<and>
      tasks (snd (modal_handleAddTask os (handleAddTask now today Rejects) closeModal (m, t))) =
        tasks t \<and>
      tasks (snd (modal_handleAddTask os (handleAddTask now today Resolves) closeModal (m, t))) =
        newTask now today (newTaskTitle m) (newTaskCategory m) # tasks t \<and>
      tasks (snd (modal_handleAddTask os (home_handleAddTask now today w) closeModal (m, h))) =
        newTask now today (newTaskTitle m) (newTaskCategory m) # tasks h \<and>
      title (newTask now today (newTaskTitle m) (newTaskCategory m)) = trim (newTaskTitle m))"
  by (cases os)
    (simp_all add: modal_handleAddTask_def closeModal_def tasks_handleAddTask
      tasks_home_handleAddTask newTask_def)

theorem modal_handleAddTask_rejected_write_witness:
  "trim [CHR 0x20, CHR 0xA0, CHR 0x09] = [] \<and>
   modal_handleAddTask Web (handleAddTask 1700000000002 ''11/14/2023'' Resolves) closeModal
     (\<lparr>newTaskTitle = [CHR 0x20, CHR 0xA0, CHR 0x09], newTaskCategory = ''Work''\<rparr>, tasks0) =
     (\<lparr>newTaskTitle = [CHR 0x20, CHR 0xA0, CHR 0x09], newTaskCategory = ''Work''\<rparr>,
      tasks0\<lparr>alerts := [WindowAlert ''Please enter a task title'']\<rparr>) \<and>
   trim '' Buy bread '' = ''Buy bread'' \<and>
   tasks (snd (modal_handleAddTask Native (handleAddTask 1700000000002 ''11/14/2023'' Rejects)
      closeModal (\<lparr>newTaskTitle = '' Buy bread '', newTaskCategory = ''Shopping''\<rparr>, tasks0))) =
     [milk, report] \<and>
   map title
     (tasks (snd (modal_handleAddTask Native (home_handleAddTask 1700000000002 ''11/14/2023'' Rejects)
        closeModal (\<lparr>newTaskTitle = '' Buy bread '', newTaskCategory = ''Shopping''\<rparr>, home0)))) =
     [''Buy bread'', ''Buy milk'', ''Write Report'']"
proof -
  have e: "trim [CHR 0x20, CHR 0xA0, CHR 0x09] = []" and b: "trim '' Buy bread '' = ''Buy bread''"
    by (simp_all add: trim_def isWhiteSpace_def)
  show ?thesis
    using e b
      modal_handleAddTask_rejected_write [of
        "\<lparr>newTaskTitle = [CHR 0x20, CHR 0xA0, CHR 0x09], newTaskCategory = ''Work''\<rparr>"
        Web "handleAddTask 1700000000002 ''11/14/2023'' Resolves" closeModal tasks0
        1700000000002 "''11/14/2023''" tasks0 Rejects home0]
      modal_handleAddTask_rejected_write [of
        "\<lparr>newTaskTitle = '' Buy bread '', newTaskCategory = ''Shopping''\<rparr>"
        Native "handleAddTask 1700000000002 ''11/14/2023'' Resolves" closeModal tasks0
        1700000000002 "''11/14/2023''" tasks0 Rejects home0]
    by (simp add: modal_handleAddTask_def closeModal_def tasks_handleAddTask newTask_def
        tasks0_def home0_def milk_def report_def)
qed

section \<open>Identifiers\<close>

lemma digit_val_digit_char: "d < 10 \<Longrightarrow> digit_val (digit_char d) = d"
  by (simp add: digit_val_def digit_char_def)

lemma decimal_val_snoc: "decimal_val (s @ [c]) = 10 * decimal_val s + digit_val c"
  by (simp add: decimal_val_def)

lemma decimal_val_decimal: "decimal_val (decimal n) = n"
proof (induction n rule: decimal.induct)
  case (1 n)
  show ?case
  proof (cases "n < 10")
    case True
    then show ?thesis
      by (subst decimal.simps) (simp add: decimal_val_def digit_val_digit_char)
  next
    case False
    with 1 have "decimal_val (decimal (n div 10)) = n div 10" by simp
    with False show ?thesis
      by (subst decimal.simps) (simp add: decimal_val_snoc digit_val_digit_char)
  qed
qed

lemma decimal_inj: "decimal a = decimal b \<Longrightarrow> a = b"
  by (metis decimal_val_decimal)

lemma digit_char_not_minus: "d < 10 \<Longrightarrow> digit_char d \<noteq> CHR ''-''"
proof
  assume d: "d < 10" and eq: "digit_char d = CHR ''-''"
  have "of_char (digit_char d) = (48 + d)" using d by (simp add: digit_char_def)
  with eq have "(of_char (CHR ''-'') :: nat) = 48 + d" by simp
  then show False by simp
qed

lemma decimal_starts_with_digit: "hd (decimal n) \<noteq> CHR ''-'' \<and> decimal n \<noteq> []"
proof (induction n rule: decimal.induct)
  case (1 n)
  show ?case
  proof (cases "n < 10")
    case True
    then show ?thesis by (subst (1 2) decimal.simps) (simp add: digit_char_not_minus)
  next
    case False
    with 1 have "hd (decimal (n div 10)) \<noteq> CHR ''-'' \<and> decimal (n div 10) \<noteq> []" by simp
    with False show ?thesis by (subst (1 2) decimal.simps) simp
  qed
qed

lemma toString_inj: "toString a = toString b \<longleftrightarrow> a = b"
proof
  assume eq: "toString a = toString b"
  show "a = b"
  proof (cases "a < 0")
    case an: True
    show ?thesis
    proof (cases "b < 0")
      case True
      with an eq have "decimal (nat (- a)) = decimal (nat (- b))" by (simp add: toString_def)
      then have "nat (- a) = nat (- b)" by (rule decimal_inj)
      with an True show ?thesis by simp
    next
      case False
      with an eq have "CHR ''-'' # decimal (nat (- a)) = decimal (nat b)"
        by (simp add: toString_def)
      then have "hd (decimal (nat b)) = CHR ''-''" by (metis list.sel(1))
      with decimal_starts_with_digit show ?thesis by blast
    qed
  next
    case ap: False
    show ?thesis
    proof (cases "b < 0")
      case True
      with ap eq have "decimal (nat a) = CHR ''-'' # decimal (nat (- b))"
        by (simp add: toString_def)
      then have "hd (decimal (nat a)) = CHR ''-''" by (metis list.sel(1))
      with decimal_starts_with_digit show ?thesis by blast
    next
      case False
      with ap eq have "decimal (nat a) = decimal (nat b)" by (simp add: toString_def)
      then have "nat a = nat b" by (rule decimal_inj)
      with ap False show ?thesis by simp
    qed
  qed
qed simp

text \<open>
  C6, as the code has it. The identifier of a record is the clock reading at its
  creation, printed: two records built by an add have the same identifier exactly when
  they were built at the same reading. So an add keeps the identifiers of the collection
  pairwise different when they were so before and the printed reading is not among
  them. Nothing in the code compares identifiers or waits for the clock to move: the
  instance after the theorem is two adds at one reading.
\<close>

theorem handleAddTask_identifiers:
  "(id_task (newTask n1 d1 t1 c1) = id_task (newTask n2 d2 t2 c2) \<longleftrightarrow> n1 = n2) \<and>
   (distinct (map id_task (tasks s)) \<and> toString now \<notin> set (map id_task (tasks s)) \<longrightarrow>
      distinct (map id_task (tasks (handleAddTask now today w ttl cat s)))) \<and>
   (distinct (map id_task (tasks h)) \<and> toString now \<notin> set (map id_task (tasks h)) \<longrightarrow>
      distinct (map id_task (tasks (home_handleAddTask now today w' ttl cat h))))"
proof -
  have "id_task (newTask n1 d1 t1 c1) = id_task (newTask n2 d2 t2 c2) \<longleftrightarrow> n1 = n2"
    by (simp add: newTask_def toString_inj)
  moreover have "id_task (newTask now today ttl cat) = toString now"
    by (simp add: newTask_def)
  ultimately show ?thesis
    by (cases w) (simp_all add: tasks_handleAddTask tasks_home_handleAddTask)
qed

theorem handleAddTask_identifiers_witness:
  "distinct (map id_task (tasks tasks0)) \<and>
   toString 1700000000002 \<notin> set (map id_task (tasks tasks0)) \<and>
   distinct (map id_task
     (tasks (handleAddTask 1700000000002 ''11/14/2023'' Resolves ''Call home'' ''Personal'' tasks0))) \<and>
   map id_task
     (tasks (handleAddTask 1700000000002 ''11/14/2023'' Resolves ''Call home'' ''Personal'' tasks0)) =
     [''1700000000002'', ''1700000000000'', ''1700000000001'']"
proof -
  have p: "toString 1700000000002 = ''1700000000002''"
    by (simp add: toString_def decimal.simps digit_char_def char_of_def bit_0)
  show ?thesis
    using handleAddTask_identifiers [of 1700000000002 "''11/14/2023''" "''Call home''" "''Personal''"
        1700000000003 "''11/14/2023''" "''Buy bread''" "''Shopping''" tasks0 1700000000002
        "''11/14/2023''" Resolves "''Call home''" "''Personal''" home0 Resolves]
    by (simp add: p tasks_handleAddTask newTask_def tasks0_def milk_def report_def)
qed

theorem handleAddTask_identifiers_counterexample:
  "map id_task
     (tasks (home_handleAddTask 1700000000002 ''11/14/2023'' Resolves ''Call home'' ''Personal''
        (home_handleAddTask 1700000000002 ''11/14/2023'' Resolves ''Buy bread'' ''Shopping'' home0))) =
     [''1700000000002'', ''1700000000002'', ''1700000000000'', ''1700000000001''] \<and>
   map title
     (tasks (home_handleAddTask 1700000000002 ''11/14/2023'' Resolves ''Call home'' ''Personal''
        (home_handleAddTask 1700000000002 ''11/14/2023'' Resolves ''Buy bread'' ''Shopping'' home0))) =
     [''Call home'', ''Buy bread'', ''Buy milk'', ''Write Report''] \<and>
   \<not> distinct (map id_task
     (tasks (home_handleAddTask 1700000000002 ''11/14/2023'' Resolves ''Call home'' ''Personal''
        (home_handleAddTask 1700000000002 ''11/14/2023'' Resolves ''Buy bread'' ''Shopping'' home0))))"
  by (simp add: tasks_home_handleAddTask newTask_def home0_def milk_def report_def
      toString_def decimal.simps digit_char_def char_of_def bit_0 trim_def isWhiteSpace_def)

section \<open>Derived values of the home screen\<close>

text \<open>
  C9. For a query that is not empty, the tasks displayed are exactly the tasks of the
  collection, in their order, whose title contains the query case-insensitively; when no
  title does, none is displayed.
\<close>

theorem displayedTasks_search:
  assumes "q \<noteq> []"
  shows "displayedTasks q ts = filter (\<lambda>t. contains_ci (title t) q) ts \<and>
         ((\<forall>t \<in> set ts. \<not> contains_ci (title t) q) \<longrightarrow> displayedTasks q ts = [])"
  using assms by (simp add: displayedTasks_def contains_ci_def includes_str_sublist)

theorem displayedTasks_search_witness:
  "''MILK'' \<noteq> [] \<and> displayedTasks ''MILK'' [milk, report] = [milk] \<and>
   \<not> contains_ci (title milk) ''tea'' \<and> \<not> contains_ci (title report) ''tea'' \<and>
   displayedTasks ''tea'' [milk, report] = []"
proof -
  have a: "contains_ci (title milk) ''MILK''" and b: "\<not> contains_ci (title report) ''MILK''"
    and c: "\<not> contains_ci (title milk) ''tea''" and d: "\<not> contains_ci (title report) ''tea''"
    by code_simp+
  have m: "''MILK'' \<noteq> []" and t: "''tea'' \<noteq> []"
    by simp_all
  show ?thesis
    using a b c d displayedTasks_search [OF m, of "[milk, report]"]
      displayedTasks_search [OF t, of "[milk, report]"]
    by simp
qed

subsection \<open>The percentage\<close>

lemma round_half_even_nonneg: "0 \<le> a \<Longrightarrow> 0 < b \<Longrightarrow> 0 \<le> round_half_even a b"
  by (simp add: round_half_even_def Let_def pos_imp_zdiv_nonneg_iff)

lemma floor_log2_le: "floor_log2 a b \<le> bitlen a - bitlen b"
  by (simp add: floor_log2_def Let_def)

lemma bitlen_mono: "a \<le> b \<Longrightarrow> bitlen a \<le> bitlen b"
  by (simp add: bitlen_def floorlog_mono)

lemma round_positive_finite:
  assumes "0 < a" and "0 < b" and "floor_log2 a b \<le> 1022"
  shows "\<exists>m e. round_positive a b = Finite m e \<and> 0 \<le> m \<and> m < 2 ^ 53 \<and>
           e \<le> max (floor_log2 a b) (- 1022) - 51"
proof -
  define e where "e = max (floor_log2 a b) (- 1022) - 52"
  define m where "m = round_half_even (a * 2 ^ nat (- e)) (b * 2 ^ nat e)"
  have m0: "0 \<le> m"
    unfolding m_def using assms by (intro round_half_even_nonneg) simp_all
  have e1: "e + 1 \<le> 971"
    using assms(3) by (simp add: e_def)
  show ?thesis
  proof (cases "2 ^ 53 \<le> m")
    case True
    then have "round_positive a b = Finite (2 ^ 52) (e + 1)"
      using e1 by (simp add: round_positive_def Let_def e_def [symmetric] m_def [symmetric])
    then show ?thesis by (simp add: e_def)
  next
    case False
    then have "round_positive a b = Finite m e"
      using e1 by (simp add: round_positive_def Let_def e_def [symmetric] m_def [symmetric])
    with False m0 show ?thesis by (simp add: e_def)
  qed
qed

lemma divide_number_finite:
  assumes "0 < n" and "c \<le> n"
  shows "\<exists>m e. divide_number c n = Finite m e \<and> 0 \<le> m \<and> m < 2 ^ 53 \<and> e \<le> 0"
proof (cases "c = 0")
  case True
  with assms show ?thesis by (simp add: divide_number_def round_fraction_def)
next
  case False
  have l: "floor_log2 (int c) (int n) \<le> 0"
    using floor_log2_le [of "int c" "int n"] bitlen_mono [of "int c" "int n"] assms by simp
  from False assms l obtain m e where
    "round_positive (int c) (int n) = Finite m e" "0 \<le> m" "m < 2 ^ 53"
    "e \<le> max (floor_log2 (int c) (int n)) (- 1022) - 51"
    using round_positive_finite [of "int c" "int n"] by auto
  with False assms l show ?thesis
    by (auto simp: divide_number_def round_fraction_def)
qed

lemma times_100_finite:
  assumes "0 \<le> m" and "m < 2 ^ 53" and "e \<le> 0"
  shows "\<exists>m' e'. times_100 (Finite m e) = Finite m' e'"
proof (cases "m = 0")
  case True
  then show ?thesis by (simp add: round_fraction_def)
next
  case False
  let ?a = "100 * m" and ?b = "(2::int) ^ nat (- e)"
  have a: "0 < ?a" using False assms by simp
  have b: "0 < ?b" by simp
  have "?a < 2 ^ 60" using assms by simp
  then have "bitlen ?a \<le> 60" by (simp add: bitlen_le_iff_power)
  moreover have "0 \<le> bitlen ?b" by (rule bitlen_nonneg)
  ultimately have "floor_log2 ?a ?b \<le> 1022"
    using floor_log2_le [of ?a ?b] by linarith
  from round_positive_finite [OF a b this] obtain m' e' where
    "round_positive ?a ?b = Finite m' e'" by blast
  with a assms show ?thesis by (simp add: round_fraction_def)
qed

text \<open>
  C10. The percentage is a finite number for every collection: 0 for the empty one, where
  the quotient alone is not a number, and otherwise the number completed divided by the
  number of tasks, times 100, each of the two operations rounded to a double as the
  runtime rounds it. For 7 completed of 100 that is 7.000000000000001, the double
  \<open>7 + 1 / 2 ^ 50\<close>.
\<close>

theorem progress_total:
  "progress [] = Finite 0 (- 1074) \<and> number_value (progress []) = Some 0 \<and>
   (ts \<noteq> [] \<longrightarrow>
      progress ts = times_100 (divide_number (length (filter completed ts)) (length ts))) \<and>
   (\<exists>m e. progress ts = Finite m e) \<and>
   times_100 (divide_number (completedCount []) (totalCount [])) = NaN"
proof -
  have "\<exists>m e. progress ts = Finite m e"
  proof (cases "ts = []")
    case True
    then show ?thesis by (simp add: progress_def totalCount_def)
  next
    case False
    then have "0 < length ts" and "length (filter completed ts) \<le> length ts"
      by simp_all
    from divide_number_finite [OF this] obtain m e where
      "divide_number (length (filter completed ts)) (length ts) = Finite m e"
      "0 \<le> m" "m < 2 ^ 53" "e \<le> 0"
      by blast
    with False times_100_finite [of m e] show ?thesis
      by (simp add: progress_def totalCount_def completedCount_def)
  qed
  then show ?thesis
    by (simp add: progress_def totalCount_def completedCount_def divide_number_def)
qed

theorem progress_total_witness:
  "[milk, report] \<noteq> [] \<and> progress [milk, report] = Finite 7036874417766400 (- 47) \<and>
   number_value (progress [milk, report]) = Some 50 \<and>
   times_100 (divide_number 7 100) = Finite 7881299347898369 (- 50) \<and>
   number_value (times_100 (divide_number 7 100)) = Some (7 + 1 / 2 ^ 50)"
proof -
  have h: "times_100 (divide_number (Suc 0) (Suc (Suc 0))) = Finite 7036874417766400 (- 47)"
    and s: "times_100 (divide_number 7 100) = Finite 7881299347898369 (- 50)"
    by (simp_all add: divide_number_def round_fraction_def round_positive_def floor_log2_def
        round_half_even_def compute_bitlen Let_def)
  show ?thesis
    using progress_total [of "[milk, report]"]
    by (simp add: h s milk_def report_def)
qed

end
